theory Spec2Isabelle
  imports Main "HOL-Library.Word" "HOL-Library.Multiset"
begin

section \<open>JavaScript strings\<close>

text \<open>
  A JavaScript string is a sequence of UTF-16 code units: \<open>length\<close>, \<open>includes\<close>,
  \<open>split\<close>, \<open>trim\<close> and a regular expression without the \<open>u\<close> flag all work on code
  units. ASCII literals of the source are written with \<open>ascii\<close>, Hangul literals as the code
  units of the (NFC) source text.
\<close>

type_synonym jschar = "16 word"
type_synonym jstring = "jschar list"

definition ascii :: "string \<Rightarrow> jstring" where
  "ascii s = map of_char s"

text \<open>ECMAScript WhiteSpace and LineTerminator; \<open>trim\<close> and the class \<open>\s\<close> use their union.\<close>

definition isLineTerminator :: "jschar \<Rightarrow> bool" where
  "isLineTerminator c = (c = 0x000A \<or> c = 0x000D \<or> c = 0x2028 \<or> c = 0x2029)"

definition isWhiteSpace :: "jschar \<Rightarrow> bool" where
  "isWhiteSpace c =
     (c = 0x0009 \<or> c = 0x000B \<or> c = 0x000C \<or> c = 0x0020 \<or> c = 0x00A0 \<or> c = 0x1680 \<or>
      (0x2000 \<le> c \<and> c \<le> 0x200A) \<or> c = 0x202F \<or> c = 0x205F \<or> c = 0x3000 \<or> c = 0xFEFF)"

definition isSpace :: "jschar \<Rightarrow> bool" where
  "isSpace c = (isWhiteSpace c \<or> isLineTerminator c)"

definition trim :: "jstring \<Rightarrow> jstring" where
  "trim s = rev (dropWhile isSpace (rev (dropWhile isSpace s)))"

text \<open>\<open>s.split(sep)\<close> for a one-unit separator: always at least one piece.\<close>

fun split_on :: "jschar \<Rightarrow> jstring \<Rightarrow> jstring list" where
  "split_on sep [] = [[]]"
| "split_on sep (c # cs) =
     (if c = sep then [] # split_on sep cs
      else (case split_on sep cs of
              [] \<Rightarrow> [[c]]
            | l # ls \<Rightarrow> (c # l) # ls))"

definition startsWith :: "jstring \<Rightarrow> jstring \<Rightarrow> bool" where
  "startsWith s p = (take (length p) s = p)"

fun str_includes :: "jstring \<Rightarrow> jstring \<Rightarrow> bool" where
  "str_includes [] kw = (kw = [])"
| "str_includes (c # cs) kw = (startsWith (c # cs) kw \<or> str_includes cs kw)"

section \<open>The regular expressions of \<open>isHeader\<close>\<close>

text \<open>
  Every pattern of \<open>headerPatterns\<close> is \<open>^\<close> followed by a sequence of quantified
  character classes, with or without a final \<open>$\<close>. \<open>Rep p lo hi\<close> is the class \<open>p\<close>
  repeated \<open>lo\<close> to \<open>hi\<close> times (\<open>None\<close>: unbounded). \<open>RegExp.test\<close> asks whether some
  match exists, so backtracking is the search over every admissible repetition count.
\<close>

datatype atom = Rep "jschar \<Rightarrow> bool" nat "nat option"

fun rx_match :: "atom list \<Rightarrow> bool \<Rightarrow> jstring \<Rightarrow> bool" where
  "rx_match [] anchored s = (if anchored then s = [] else True)"
| "rx_match (Rep p lo hi # r) anchored s =
     (let n = length (takeWhile p s);
          m = (case hi of None \<Rightarrow> n | Some h \<Rightarrow> min h n)
      in list_ex (\<lambda>k. rx_match r anchored (drop k s)) [lo ..< Suc m])"

definition one :: "(jschar \<Rightarrow> bool) \<Rightarrow> atom" where
  "one p = Rep p 1 (Some 1)"

definition plus1 :: "(jschar \<Rightarrow> bool) \<Rightarrow> atom" where
  "plus1 p = Rep p 1 None"

definition star :: "(jschar \<Rightarrow> bool) \<Rightarrow> atom" where
  "star p = Rep p 0 None"

definition chr :: "jschar \<Rightarrow> jschar \<Rightarrow> bool" where
  "chr a c = (c = a)"

definition digit :: "jschar \<Rightarrow> bool" where
  "digit c = (0x0030 \<le> c \<and> c \<le> 0x0039)"

definition hangul :: "jschar \<Rightarrow> bool" where
  "hangul c = (0xAC00 \<le> c \<and> c \<le> 0xD7A3)"

definition upper :: "jschar \<Rightarrow> bool" where
  "upper c = (0x0041 \<le> c \<and> c \<le> 0x005A)"

definition anychar :: "jschar \<Rightarrow> bool" where
  "anychar c = (\<not> isLineTerminator c)"

definition openBracket :: "jschar \<Rightarrow> bool" where
  "openBracket c = (c = 0x005B \<or> c = 0x005D \<or> c = 0x3010 \<or> c = 0x3011)"

definition closeBracket :: "jschar \<Rightarrow> bool" where
  "closeBracket c = (c = 0x005B \<or> c = 0x005D \<or> c = 0x3011)"

text \<open>The six patterns, in the source's order; the flag says whether the pattern ends in \<open>$\<close>.\<close>

definition headerPatterns :: "(atom list \<times> bool) list" where
  "headerPatterns =
    [([plus1 digit, one (chr 0x002E), plus1 isSpace, plus1 anychar], False),
     ([one hangul, one (chr 0x002E), plus1 isSpace, plus1 anychar], False),
     ([one upper, one (chr 0x002E), plus1 isSpace, plus1 anychar], False),
     ([Rep (chr 0x0023) 1 (Some 6), plus1 isSpace, plus1 anychar], False),
     ([Rep anychar 1 (Some 50), one (chr 0x003A)], True),
     ([one openBracket, star isSpace, plus1 anychar, star isSpace, one closeBracket], False)]"

definition test :: "atom list \<times> bool \<Rightarrow> jstring \<Rightarrow> bool" where
  "test pat line = rx_match (fst pat) (snd pat) line"

definition kw_goal :: jstring where "kw_goal = [0xBAA9, 0xD45C]"
definition kw_overview :: jstring where "kw_overview = [0xAC1C, 0xC694]"
definition kw_background :: jstring where "kw_background = [0xBC30, 0xACBD]"
definition kw_conclusion :: jstring where "kw_conclusion = [0xACB0, 0xB860]"
definition kw_summary :: jstring where "kw_summary = [0xC694, 0xC57D]"

text \<open>
  \<open>&&\<close> binds tighter than \<open>||\<close>: the length test guards the first keyword only.
\<close>

definition isHeader :: "jstring \<Rightarrow> bool" where
  "isHeader line =
     (list_ex (\<lambda>pattern. test pattern line) headerPatterns \<or>
      ((length line < 100 \<and> str_includes line kw_goal) \<or> str_includes line kw_overview \<or>
       str_includes line kw_background \<or> str_includes line kw_conclusion \<or> str_includes line kw_summary))"

section \<open>Templates and their sections\<close>

datatype SectionType = Header | Content | Table | List | Image

record ITemplateSection =
  title :: jstring
  placeholder :: "jstring option"
  order :: int
  type :: SectionType

text \<open>The text \<open>[<title> ...]\<close> that a new section gets as its placeholder.\<close>

definition placeholder_suffix :: jstring where
  "placeholder_suffix =
     [0x0020, 0xB0B4, 0xC6A9, 0xC744, 0x0020, 0xC785, 0xB825, 0xD558, 0xC138, 0xC694, 0x005D]"

definition defaultPlaceholder :: "jstring \<Rightarrow> jstring" where
  "defaultPlaceholder t = ascii ''['' @ t @ placeholder_suffix"

definition defaultSection :: ITemplateSection where
  "defaultSection =
     \<lparr>title = [0xC804, 0xCCB4, 0x0020, 0xBB38, 0xC11C],
      placeholder = Some [0x005B, 0xBCF4, 0xACE0, 0xC11C, 0x0020, 0xB0B4, 0xC6A9, 0xC744, 0x0020,
                          0xC785, 0xB825, 0xD558, 0xC138, 0xC694, 0x005D],
      order = 0,
      type = Content\<rparr>"

text \<open>A string or an absent value is falsy when it is \<open>undefined\<close> or empty.\<close>

definition falsy :: "jstring option \<Rightarrow> bool" where
  "falsy p = (case p of None \<Rightarrow> True | Some s \<Rightarrow> s = [])"

section \<open>\<open>FileParserService.extractSections\<close>\<close>

text \<open>The loop variables: \<open>sections\<close>, \<open>currentSection\<close> and \<open>order\<close>.\<close>

type_synonym scan = "ITemplateSection list \<times> ITemplateSection option \<times> int"

definition pushCurrent :: "ITemplateSection list \<Rightarrow> ITemplateSection option \<Rightarrow> ITemplateSection list" where
  "pushCurrent secs cur = (case cur of None \<Rightarrow> secs | Some c \<Rightarrow> secs @ [c])"

definition addContent :: "ITemplateSection \<Rightarrow> jstring \<Rightarrow> ITemplateSection" where
  "addContent c trimmedLine =
     (let c1 = c\<lparr>type := Content\<rparr>
      in if falsy (placeholder c1) then c1\<lparr>placeholder := Some trimmedLine\<rparr> else c1)"

fun scanLine :: "scan \<Rightarrow> jstring \<Rightarrow> scan" where
  "scanLine (secs, cur, ord) line =
     (let trimmedLine = trim line
      in if isHeader trimmedLine then
           (pushCurrent secs cur,
            Some \<lparr>title = trimmedLine,
                  placeholder = Some (defaultPlaceholder trimmedLine),
                  order = ord,
                  type = Header\<rparr>,
            ord + 1)
         else (case cur of
                 None \<Rightarrow> (secs, cur, ord)
               | Some c \<Rightarrow>
                   if trimmedLine \<noteq> [] then (secs, Some (addContent c trimmedLine), ord)
                   else (secs, cur, ord)))"

definition nonblankLines :: "jstring \<Rightarrow> jstring list" where
  "nonblankLines content = filter (\<lambda>line. trim line \<noteq> []) (split_on 0x000A content)"

definition extractSections :: "jstring \<Rightarrow> ITemplateSection list" where
  "extractSections content =
     (case foldl scanLine ([], None, 0) (nonblankLines content) of
        (secs, cur, ord) \<Rightarrow>
          (let secs1 = pushCurrent secs cur
           in if length secs1 = 0 then secs1 @ [defaultSection] else secs1))"

section \<open>Registered templates and reports\<close>

datatype FileType = Pdf | Docx

record ITemplate =
  filename :: jstring
  type :: FileType
  content :: jstring
  sections :: "ITemplateSection list"

datatype ReportStatus = Pending | Processing | Completed | Failed

text \<open>
  A template is an object shared by the templates registry and by every report made from
  it, and \<open>Array.prototype.sort\<close> works in place: templates live in a store and are named
  by reference.
\<close>

type_synonym ref = nat

record IReport =
  id :: jstring
  title :: jstring
  template :: ref
  content :: jstring
  status :: ReportStatus
  created_at :: jstring
  completed_at :: "jstring option"

datatype ResponseStatus = Resp_started | Resp_completed | Resp_failed

record IGenerateResponse =
  reportId :: jstring
  status :: ResponseStatus
  content :: "jstring option"
  error :: "jstring option"

text \<open>The two \<open>Map\<close>s that \<open>ReportGeneratorService\<close> is constructed with, and the store.\<close>

record registries =
  store :: "ref \<Rightarrow> ITemplate"
  templates :: "jstring \<rightharpoonup> ref"
  reports :: "jstring \<rightharpoonup> IReport"

section \<open>Values of type \<open>any\<close> and \<open>JSON.stringify\<close>\<close>

text \<open>
  The \<open>context\<close> of a request is a \<open>Record<string, any>\<close>. A number is carried as the text
  that \<open>Number::toString\<close> gives for it (\<open>None\<close> for \<open>NaN\<close> and the infinities); an object
  as its own enumerable string-keyed properties in enumeration order. \<open>JSON.stringify\<close>
  throws a \<open>TypeError\<close> on a \<open>BigInt\<close>; it also does on a cyclic value, which this
  datatype of finite trees does not contain.
\<close>

datatype jsany =
    JUndefined
  | JNull
  | JBoolean bool
  | JNumber "jstring option"
  | JString jstring
  | JBigInt int
  | JArray "jsany list"
  | JObject "(jstring \<times> jsany) list"

datatype exn = Error jstring | TypeError jstring

definition message :: "exn \<Rightarrow> jstring" where
  "message e = (case e of Error m \<Rightarrow> m | TypeError m \<Rightarrow> m)"

definition join :: "jstring \<Rightarrow> jstring list \<Rightarrow> jstring" where
  "join sep xs = (case xs of [] \<Rightarrow> [] | y # ys \<Rightarrow> foldl (\<lambda>acc x. acc @ sep @ x) y ys)"

definition hexDigit :: "nat \<Rightarrow> jschar" where
  "hexDigit n = (if n < 10 then 0x0030 + of_nat n else 0x0061 + of_nat (n - 10))"

definition unicodeEscape :: "jschar \<Rightarrow> jstring" where
  "unicodeEscape c =
     [0x005C, 0x0075, hexDigit (unat c div 4096), hexDigit (unat c div 256 mod 16),
      hexDigit (unat c div 16 mod 16), hexDigit (unat c mod 16)]"

definition leadSurrogate :: "jschar \<Rightarrow> bool" where
  "leadSurrogate c = (0xD800 \<le> c \<and> c \<le> 0xDBFF)"

definition trailSurrogate :: "jschar \<Rightarrow> bool" where
  "trailSurrogate c = (0xDC00 \<le> c \<and> c \<le> 0xDFFF)"

fun quoteUnits :: "jstring \<Rightarrow> jstring" where
  "quoteUnits [] = []"
| "quoteUnits (c # cs) =
     (if c = 0x0008 then [0x005C, 0x0062] @ quoteUnits cs
      else if c = 0x0009 then [0x005C, 0x0074] @ quoteUnits cs
      else if c = 0x000A then [0x005C, 0x006E] @ quoteUnits cs
      else if c = 0x000C then [0x005C, 0x0066] @ quoteUnits cs
      else if c = 0x000D then [0x005C, 0x0072] @ quoteUnits cs
      else if c = 0x0022 then [0x005C, 0x0022] @ quoteUnits cs
      else if c = 0x005C then [0x005C, 0x005C] @ quoteUnits cs
      else if c < 0x0020 then unicodeEscape c @ quoteUnits cs
      else if leadSurrogate c then
        (case cs of
           [] \<Rightarrow> unicodeEscape c
         | d # ds \<Rightarrow>
             if trailSurrogate d then c # d # quoteUnits ds
             else unicodeEscape c @ quoteUnits cs)
      else if trailSurrogate c then unicodeEscape c @ quoteUnits cs
      else c # quoteUnits cs)"

definition QuoteJSONString :: "jstring \<Rightarrow> jstring" where
  "QuoteJSONString s = [0x0022] @ quoteUnits s @ [0x0022]"

definition gap :: jstring where
  "gap = ascii ''  ''"

definition wrap :: "jstring \<Rightarrow> jstring \<Rightarrow> jstring \<Rightarrow> jstring list \<Rightarrow> jstring" where
  "wrap opening closing stepback partial =
     (if partial = [] then opening @ closing
      else opening @ [0x000A] @ (stepback @ gap) @
           join ([0x002C, 0x000A] @ stepback @ gap) partial @
           [0x000A] @ stepback @ closing)"

text \<open>
  \<open>SerializeJSONProperty\<close> with the current indentation: \<open>Inr None\<close> is \<open>undefined\<close> (the
  property is left out, an array element becomes \<open>null\<close>), \<open>Inl\<close> the exception thrown.
\<close>

fun SerializeJSONProperty :: "jstring \<Rightarrow> jsany \<Rightarrow> exn + jstring option"
  and SerializeJSONArray :: "jstring \<Rightarrow> jsany list \<Rightarrow> exn + jstring list"
  and SerializeJSONObject :: "jstring \<Rightarrow> (jstring \<times> jsany) list \<Rightarrow> exn + jstring list"
where
  "SerializeJSONProperty indent JUndefined = Inr None"
| "SerializeJSONProperty indent JNull = Inr (Some (ascii ''null''))"
| "SerializeJSONProperty indent (JBoolean b) =
     Inr (Some (if b then ascii ''true'' else ascii ''false''))"
| "SerializeJSONProperty indent (JNumber n) =
     Inr (Some (case n of None \<Rightarrow> ascii ''null'' | Some t \<Rightarrow> t))"
| "SerializeJSONProperty indent (JString s) = Inr (Some (QuoteJSONString s))"
| "SerializeJSONProperty indent (JBigInt n) =
     Inl (TypeError (ascii ''Do not know how to serialize a BigInt''))"
| "SerializeJSONProperty indent (JArray xs) =
     (case SerializeJSONArray (indent @ gap) xs of
        Inl e \<Rightarrow> Inl e
      | Inr partial \<Rightarrow> Inr (Some (wrap (ascii ''['') (ascii '']'') indent partial)))"
| "SerializeJSONProperty indent (JObject ps) =
     (case SerializeJSONObject (indent @ gap) ps of
        Inl e \<Rightarrow> Inl e
      | Inr partial \<Rightarrow> Inr (Some (wrap (ascii ''{'') (ascii ''}'') indent partial)))"
| "SerializeJSONArray indent [] = Inr []"
| "SerializeJSONArray indent (x # xs) =
     (case SerializeJSONProperty indent x of
        Inl e \<Rightarrow> Inl e
      | Inr strP \<Rightarrow>
          (case SerializeJSONArray indent xs of
             Inl e \<Rightarrow> Inl e
           | Inr rest \<Rightarrow> Inr ((case strP of None \<Rightarrow> ascii ''null'' | Some t \<Rightarrow> t) # rest)))"
| "SerializeJSONObject indent [] = Inr []"
| "SerializeJSONObject indent ((k, v) # ps) =
     (case SerializeJSONProperty indent v of
        Inl e \<Rightarrow> Inl e
      | Inr strP \<Rightarrow>
          (case SerializeJSONObject indent ps of
             Inl e \<Rightarrow> Inl e
           | Inr rest \<Rightarrow>
               Inr ((case strP of
                       None \<Rightarrow> []
                     | Some t \<Rightarrow> [QuoteJSONString k @ ascii '': '' @ t]) @ rest)))"

text \<open>\<open>JSON.stringify(context, null, 2)\<close> on an object.\<close>

definition JSON_stringify :: "(jstring \<times> jsany) list \<Rightarrow> exn + jstring" where
  "JSON_stringify ctx =
     (case SerializeJSONProperty [] (JObject ctx) of
        Inl e \<Rightarrow> Inl e
      | Inr strP \<Rightarrow> Inr (case strP of None \<Rightarrow> ascii ''undefined'' | Some t \<Rightarrow> t))"

section \<open>\<open>ReportGeneratorService\<close>\<close>

text \<open>String literals of \<open>generateContentForTemplate\<close>.\<close>

definition prompt_intro :: jstring where
  "prompt_intro =
     [0xB2F9, 0xC2E0, 0xC740, 0x0020, 0xC804, 0xBB38, 0xC801, 0xC778, 0x0020, 0xBE44, 0xC988,
      0xB2C8, 0xC2A4, 0x0020, 0xBCF4, 0xACE0, 0xC11C, 0x0020, 0xC791, 0xC131, 0xC790, 0xC785,
      0xB2C8, 0xB2E4, 0x002E, 0x0020, 0x000A, 0xC8FC, 0xC5B4, 0xC9C4, 0x0020, 0xD15C, 0xD50C,
      0xB9BF, 0x0020, 0xAD6C, 0xC870, 0xC5D0, 0x0020, 0xB9DE, 0xCDB0, 0x0020, 0xC0AC, 0xC6A9,
      0xC790, 0xC758, 0x0020, 0xC694, 0xCCAD, 0xC5D0, 0x0020, 0xB530, 0xB77C, 0x0020, 0xBCF4,
      0xACE0, 0xC11C, 0xB97C, 0x0020, 0xC791, 0xC131, 0xD574, 0xC8FC, 0xC138, 0xC694, 0x002E,
      0x000A, 0x000A, 0xD15C, 0xD50C, 0xB9BF, 0x0020, 0xAD6C, 0xC870, 0x003A, 0x000A]"

definition prompt_original :: jstring where
  "prompt_original =
     [0x000A, 0x000A, 0xC6D0, 0xBCF8, 0x0020, 0xD15C, 0xD50C, 0xB9BF, 0x0020, 0xB0B4, 0xC6A9,
      0x003A, 0x000A]"

definition prompt_guidelines :: jstring where
  "prompt_guidelines =
     [0x000A, 0x000A, 0xC791, 0xC131, 0x0020, 0xC9C0, 0xCE68, 0x003A, 0x000A, 0x0031, 0x002E,
      0x0020, 0xAC01, 0x0020, 0xC139, 0xC158, 0xBCC4, 0xB85C, 0x0020, 0xC0C1, 0xC138, 0xD558,
      0xACE0, 0x0020, 0xC804, 0xBB38, 0xC801, 0xC778, 0x0020, 0xB0B4, 0xC6A9, 0xC744, 0x0020,
      0xC791, 0xC131, 0xD558, 0xC138, 0xC694, 0x000A, 0x0032, 0x002E, 0x0020, 0xBE44, 0xC988,
      0xB2C8, 0xC2A4, 0x0020, 0xBB38, 0xC11C, 0xC5D0, 0x0020, 0xC801, 0xD569, 0xD55C, 0x0020,
      0xACA9, 0xC2DD, 0x0020, 0xC788, 0xB294, 0x0020, 0xC5B8, 0xC5B4, 0xB97C, 0x0020, 0xC0AC,
      0xC6A9, 0xD558, 0xC138, 0xC694, 0x000A, 0x0033, 0x002E, 0x0020, 0xAD6C, 0xCCB4, 0xC801,
      0xC778, 0x0020, 0xB370, 0xC774, 0xD130, 0xB098, 0x0020, 0xC608, 0xC2DC, 0xB97C, 0x0020,
      0xD3EC, 0xD568, 0xD558, 0xC138, 0xC694, 0x000A, 0x0034, 0x002E, 0x0020, 0xB9C8, 0xD06C,
      0xB2E4, 0xC6B4, 0x0020, 0xD615, 0xC2DD, 0xC73C, 0xB85C, 0x0020, 0xC791, 0xC131, 0xD558,
      0xC138, 0xC694, 0x000A, 0x0035, 0x002E, 0x0020, 0xAC01, 0x0020, 0xC139, 0xC158, 0xC740,
      0x0020, 0xBA85, 0xD655, 0xD558, 0xAC8C, 0x0020, 0xAD6C, 0xBD84, 0xB418, 0xC5B4, 0xC57C,
      0x0020, 0xD569, 0xB2C8, 0xB2E4, 0x000A, 0x000A, 0xC0AC, 0xC6A9, 0xC790, 0x0020, 0xC694,
      0xCCAD, 0x003A, 0x0020]"

definition prompt_context :: jstring where
  "prompt_context =
     [0xCD94, 0xAC00, 0x0020, 0xCEE8, 0xD14D, 0xC2A4, 0xD2B8, 0x003A, 0x0020]"

definition prompt_closing :: jstring where
  "prompt_closing =
     [0x000A, 0x000A, 0xC704, 0x0020, 0xC815, 0xBCF4, 0xB97C, 0x0020, 0xBC14, 0xD0D5, 0xC73C,
      0xB85C, 0x0020, 0xD15C, 0xD50C, 0xB9BF, 0x0020, 0xAD6C, 0xC870, 0xC5D0, 0x0020, 0xB9DE,
      0xB294, 0x0020, 0xC644, 0xC131, 0xB41C, 0x0020, 0xBCF4, 0xACE0, 0xC11C, 0xB97C, 0x0020,
      0xC791, 0xC131, 0xD574, 0xC8FC, 0xC138, 0xC694, 0x002E]"

definition report_suffix :: jstring where
  "report_suffix =
     [0xC5D0, 0x0020, 0xAE30, 0xBC18, 0xD55C, 0x0020, 0xBCF4, 0xACE0, 0xC11C, 0x000A, 0x000A]"

definition detail_suffix :: jstring where
  "detail_suffix =
     [0x0020, 0xC0C1, 0xC138, 0x000A, 0x000A]"

definition related_infix :: jstring where
  "related_infix =
     [0xC640, 0x0020, 0xAD00, 0xB828, 0xB41C, 0x0020]"

definition written_suffix :: jstring where
  "written_suffix =
     [0x0020, 0xB0B4, 0xC6A9, 0xC774, 0x0020, 0xC5EC, 0xAE30, 0xC5D0, 0x0020, 0xC791, 0xC131,
      0xB429, 0xB2C8, 0xB2E4, 0x002E, 0x005D, 0x000A, 0x000A]"

definition table_block :: jstring where
  "table_block =
     [0x007C, 0x0020, 0xD56D, 0xBAA9, 0x0020, 0x007C, 0x0020, 0xB0B4, 0xC6A9, 0x0020, 0x007C,
      0x0020, 0xBE44, 0xACE0, 0x0020, 0x007C, 0x000A, 0x007C, 0x002D, 0x002D, 0x002D, 0x002D,
      0x002D, 0x002D, 0x007C, 0x002D, 0x002D, 0x002D, 0x002D, 0x002D, 0x002D, 0x007C, 0x002D,
      0x002D, 0x002D, 0x002D, 0x002D, 0x002D, 0x007C, 0x000A, 0x007C, 0x0020, 0xC608, 0xC2DC,
      0x0031, 0x0020, 0x007C, 0x0020, 0xB370, 0xC774, 0xD130, 0x0031, 0x0020, 0x007C, 0x0020,
      0xC124, 0xBA85, 0x0031, 0x0020, 0x007C, 0x000A, 0x007C, 0x0020, 0xC608, 0xC2DC, 0x0032,
      0x0020, 0x007C, 0x0020, 0xB370, 0xC774, 0xD130, 0x0032, 0x0020, 0x007C, 0x0020, 0xC124,
      0xBA85, 0x0032, 0x0020, 0x007C, 0x000A, 0x000A]"

definition list_block :: jstring where
  "list_block =
     [0x002D, 0x0020, 0xCCAB, 0x0020, 0xBC88, 0xC9F8, 0x0020, 0xD56D, 0xBAA9, 0x000A, 0x002D,
      0x0020, 0xB450, 0x0020, 0xBC88, 0xC9F8, 0x0020, 0xD56D, 0xBAA9, 0x000A, 0x002D, 0x0020,
      0xC138, 0x0020, 0xBC88, 0xC9F8, 0x0020, 0xD56D, 0xBAA9, 0x000A, 0x000A]"

definition footer_done :: jstring where
  "footer_done =
     [0x000A, 0x002D, 0x002D, 0x002D, 0x000A, 0x002A, 0x002A, 0xBCF4, 0xACE0, 0xC11C, 0x0020,
      0xC0DD, 0xC131, 0x0020, 0xC644, 0xB8CC, 0x002A, 0x002A, 0x003A, 0x0020]"

definition footer_template :: jstring where
  "footer_template =
     [0x002A, 0x002A, 0xAE30, 0xBC18, 0x0020, 0xD15C, 0xD50C, 0xB9BF, 0x002A, 0x002A, 0x003A,
      0x0020]"

text \<open>A template literal prints an absent placeholder as \<open>undefined\<close>.\<close>

definition display :: "jstring option \<Rightarrow> jstring" where
  "display p = (case p of None \<Rightarrow> ascii ''undefined'' | Some s \<Rightarrow> s)"

definition nl :: jschar where
  "nl = 0x000A"

text \<open>
  What the calls of \<open>uuidv4()\<close>, \<open>new Date().toISOString()\<close> (at creation and at
  completion) and \<open>new Date().toLocaleString()\<close> return during one request.
\<close>

record env =
  uuid :: jstring
  createdAt :: jstring
  localeNow :: jstring
  completedAt :: jstring

text \<open>
  The local \<open>systemPrompt\<close>: nothing reads it, but building it serialises \<open>context\<close>,
  which can throw.
\<close>

definition systemPrompt :: "ITemplate \<Rightarrow> jstring \<Rightarrow> (jstring \<times> jsany) list option \<Rightarrow> exn + jstring" where
  "systemPrompt t userPrompt context =
     (let structure =
            join [nl] (map (\<lambda>section. ascii ''- '' @ ITemplateSection.title section @ ascii '': '' @
                                        display (placeholder section)) (sections t));
          before = prompt_intro @ structure @ prompt_original @ ITemplate.content t @
                   prompt_guidelines @ userPrompt @ [nl]
      in case context of
           None \<Rightarrow> Inr (before @ [] @ prompt_closing)
         | Some ctx \<Rightarrow>
             (case JSON_stringify ctx of
                Inl e \<Rightarrow> Inl e
              | Inr json \<Rightarrow> Inr (before @ (prompt_context @ json) @ prompt_closing)))"

text \<open>One turn of the loop over the sorted sections.\<close>

definition appendSection :: "jstring \<Rightarrow> jstring \<Rightarrow> ITemplateSection \<Rightarrow> jstring" where
  "appendSection userPrompt fullContent section =
     (let c1 = fullContent @ (ascii ''## '' @ ITemplateSection.title section @ [nl, nl]);
          c2 = (if ITemplateSection.type section = Header
                then c1 @ (ascii ''### '' @ ITemplateSection.title section @ detail_suffix) else c1);
          c3 = c2 @ (display (placeholder section) @ [nl, nl])
      in case ITemplateSection.type section of
           Content \<Rightarrow> c3 @ (ascii ''['' @ userPrompt @ related_infix @ ITemplateSection.title section @ written_suffix)
         | Table \<Rightarrow> c3 @ table_block
         | List \<Rightarrow> c3 @ list_block
         | _ \<Rightarrow> c3)"

text \<open>
  \<open>generateContentForTemplate\<close> on the template at \<open>r\<close>: the store afterwards and the
  content or the exception. \<open>sort\<close> orders the template's own array, stably, and only runs
  once \<open>systemPrompt\<close> has been built.
\<close>

definition generateContentForTemplate ::
  "env \<Rightarrow> (ref \<Rightarrow> ITemplate) \<Rightarrow> ref \<Rightarrow> jstring \<Rightarrow> (jstring \<times> jsany) list option
     \<Rightarrow> (ref \<Rightarrow> ITemplate) \<times> (exn + jstring)" where
  "generateContentForTemplate e st r userPrompt context =
     (let fullContent0 = ascii ''# '' @ filename (st r) @ report_suffix
      in case systemPrompt (st r) userPrompt context of
           Inl ex \<Rightarrow> (st, Inl ex)
         | Inr _ \<Rightarrow>
             (let sorted = sort_key order (sections (st r));
                  st1 = st(r := (st r)\<lparr>sections := sorted\<rparr>);
                  fullContent1 = foldl (appendSection userPrompt) fullContent0 sorted;
                  fullContent2 = fullContent1 @ (footer_done @ localeNow e @ [nl]);
                  fullContent3 = fullContent2 @ (footer_template @ filename (st1 r) @ [nl])
              in (st1, Inr fullContent3)))"

record request =
  templateId :: jstring
  title :: jstring
  prompt :: jstring
  req_context :: "(jstring \<times> jsany) list option"

definition failedResponse :: "exn \<Rightarrow> IGenerateResponse" where
  "failedResponse ex =
     \<lparr>reportId = [], status = Resp_failed, content = None, error = Some (message ex)\<rparr>"

text \<open>
  \<open>generateReport\<close>: the response and the registries afterwards. The report object is put
  into \<open>reports\<close> before the content is generated and completed in place afterwards.
\<close>

definition generateReport :: "env \<Rightarrow> registries \<Rightarrow> request \<Rightarrow> IGenerateResponse \<times> registries" where
  "generateReport e s req =
     (case templates s (templateId req) of
        None \<Rightarrow> (failedResponse (Error (ascii ''Template not found'')), s)
      | Some tmpl \<Rightarrow>
          (let reportId = uuid e;
               report = \<lparr>id = reportId, IReport.title = request.title req, template = tmpl,
                         IReport.content = [], IReport.status = Processing,
                         created_at = createdAt e, completed_at = None\<rparr>;
               s1 = s\<lparr>reports := (reports s)(reportId \<mapsto> report)\<rparr>
           in case generateContentForTemplate e (store s1) tmpl (prompt req) (req_context req) of
                (st, Inl ex) \<Rightarrow> (failedResponse ex, s1\<lparr>store := st\<rparr>)
              | (st, Inr generatedContent) \<Rightarrow>
                  (let report1 = report\<lparr>IReport.content := generatedContent,
                                        IReport.status := Completed,
                                        completed_at := Some (completedAt e)\<rparr>
                   in (\<lparr>reportId = reportId, status = Resp_completed,
                        content = Some generatedContent, error = None\<rparr>,
                       s1\<lparr>store := st, reports := (reports s1)(reportId \<mapsto> report1)\<rparr>))))"

section \<open>Notions used in the statements and proofs\<close>

text \<open>What the final \<open>if (currentSection) sections.push(currentSection)\<close> makes of a loop state.\<close>

definition finish :: "scan \<Rightarrow> ITemplateSection list" where
  "finish st = (case st of (secs, cur, ord) \<Rightarrow> pushCurrent secs cur)"

definition counter :: "scan \<Rightarrow> int" where
  "counter st = (case st of (secs, cur, ord) \<Rightarrow> ord)"

text \<open>The number of header lines among the given lines.\<close>

definition headerCount :: "jstring list \<Rightarrow> nat" where
  "headerCount ls = length (filter (\<lambda>l. isHeader (trim l)) ls)"

definition numbered :: "scan \<Rightarrow> bool" where
  "numbered st = (map order (finish st) = map int [0 ..< length (finish st)] \<and>
                  counter st = int (length (finish st)))"


text \<open>The section that a header line opens.\<close>

definition newSection :: "jstring \<Rightarrow> int \<Rightarrow> ITemplateSection" where
  "newSection t ord = \<lparr>ITemplateSection.title = t, placeholder = Some (defaultPlaceholder t),
                        order = ord, ITemplateSection.type = Header\<rparr>"

text \<open>The report object as \<open>generateReport\<close> first stores it.\<close>

definition processingReport :: "env \<Rightarrow> request \<Rightarrow> ref \<Rightarrow> IReport" where
  "processingReport e req r =
     \<lparr>id = uuid e, IReport.title = request.title req, template = r, IReport.content = [],
      IReport.status = Processing, created_at = createdAt e, completed_at = None\<rparr>"

definition sortSections :: "ITemplate \<Rightarrow> ITemplate" where
  "sortSections t = t\<lparr>sections := sort_key order (sections t)\<rparr>"

section \<open>The lines of the generated content\<close>

text \<open>The text whose lines are the given ones, each ended by a line feed.\<close>

definition unlines :: "jstring list \<Rightarrow> jstring" where
  "unlines ls = concat (map (\<lambda>l. l @ [nl]) ls)"

text \<open>A line that begins with \<open>## \<close>: a level-2 heading of the generated markdown.\<close>

definition level2 :: "jstring \<Rightarrow> bool" where
  "level2 l = startsWith l (ascii ''## '')"

text \<open>The level-2 heading lines of a text, in order.\<close>

definition level2Headings :: "jstring \<Rightarrow> jstring list" where
  "level2Headings c = filter level2 (split_on nl c)"

text \<open>The literals that end a line of the content, without their two line feeds.\<close>

definition report_tail :: jstring where
  "report_tail = butlast (butlast report_suffix)"

definition detail_tail :: jstring where
  "detail_tail = butlast (butlast detail_suffix)"

definition written_tail :: jstring where
  "written_tail = butlast (butlast written_suffix)"

text \<open>
  The pieces that the loop appends for a section, each to be followed by a line feed. A
  piece that holds a title, a placeholder or the prompt has line feeds of its own when
  that text has.
\<close>

definition bodyLines :: "jstring \<Rightarrow> ITemplateSection \<Rightarrow> jstring list" where
  "bodyLines userPrompt section =
     (case ITemplateSection.type section of
        Content \<Rightarrow> [ascii ''['' @ userPrompt @ related_infix @ ITemplateSection.title section @
                     written_tail, []]
      | Table \<Rightarrow> butlast (split_on nl table_block)
      | List \<Rightarrow> butlast (split_on nl list_block)
      | _ \<Rightarrow> [])"

definition sectionLines :: "jstring \<Rightarrow> ITemplateSection \<Rightarrow> jstring list" where
  "sectionLines userPrompt section =
     [ascii ''## '' @ ITemplateSection.title section, []] @
     (if ITemplateSection.type section = Header
      then [ascii ''### '' @ ITemplateSection.title section @ detail_tail, []]
      else []) @
     [display (placeholder section), []] @
     bodyLines userPrompt section"

text \<open>The pieces before the first section and after the last.\<close>

definition headerLines :: "jstring \<Rightarrow> jstring list" where
  "headerLines fname = [ascii ''# '' @ fname @ report_tail, []]"

definition footerLines :: "jstring \<Rightarrow> jstring \<Rightarrow> jstring list" where
  "footerLines stamp fname =
     [[], ascii ''---'', drop 5 footer_done @ stamp, footer_template @ fname]"

text \<open>A string without a line feed.\<close>

definition plainText :: "jstring \<Rightarrow> bool" where
  "plainText s = (nl \<notin> set s)"

text \<open>The lines of a text after its first line.\<close>

definition laterLines :: "jstring \<Rightarrow> jstring list" where
  "laterLines t = tl (split_on nl t)"

text \<open>The lines of a text that begin with \<open>## \<close>: all of them, and those after the first line.\<close>

definition own :: "jstring \<Rightarrow> jstring list" where
  "own t = filter level2 (split_on nl t)"

definition later :: "jstring \<Rightarrow> jstring list" where
  "later t = filter level2 (laterLines t)"

text \<open>No line of the text begins with \<open>## \<close>; no line after the first does.\<close>

definition silent :: "jstring \<Rightarrow> bool" where
  "silent t = (own t = [])"

definition quiet :: "jstring \<Rightarrow> bool" where
  "quiet t = (later t = [])"

text \<open>
  The heading line of a section: \<open>## \<close> and the title, up to the title's first line feed
  if it has one.
\<close>

definition heading :: "ITemplateSection \<Rightarrow> jstring" where
  "heading section = ascii ''## '' @ hd (split_on nl (ITemplateSection.title section))"

text \<open>
  The lines beginning with \<open>## \<close> that a section adds besides its heading: later lines of
  its title (in the heading, and in the detail line of a header-type section, where a
  literal follows the title), lines of its placeholder, and for a content-type section
  later lines of the prompt and of the title in the body line.
\<close>

definition extra :: "jstring \<Rightarrow> ITemplateSection \<Rightarrow> jstring list" where
  "extra userPrompt section =
     later (ITemplateSection.title section) @
     (if ITemplateSection.type section = Header
      then later (ITemplateSection.title section @ detail_tail) else []) @
     own (display (placeholder section)) @
     (if ITemplateSection.type section = Content
      then later (userPrompt @ related_infix @ ITemplateSection.title section @ written_tail)
      else [])"

text \<open>A section that adds no such line.\<close>

definition headingSafe :: "jstring \<Rightarrow> ITemplateSection \<Rightarrow> bool" where
  "headingSafe userPrompt section =
     (quiet (ITemplateSection.title section) \<and>
      silent (display (placeholder section)) \<and>
      (case ITemplateSection.type section of
         Header \<Rightarrow> quiet (ITemplateSection.title section @ detail_tail)
       | Content \<Rightarrow> quiet userPrompt \<and> quiet (ITemplateSection.title section @ written_tail)
       | _ \<Rightarrow> True))"

text \<open>
  None of the texts copied into the content brings a line of its own that begins with
  \<open>## \<close>: not the file name, not the time stamp, and no section with the prompt.
\<close>

definition noForeignHeading :: "env \<Rightarrow> ITemplate \<Rightarrow> jstring \<Rightarrow> bool" where
  "noForeignHeading e t userPrompt =
     (quiet (filename t) \<and> quiet (localeNow e) \<and>
      list_all (headingSafe userPrompt) (sections t))"

text \<open>A section whose title and placeholder are single lines, the placeholder no heading.\<close>

definition plainSection :: "ITemplateSection \<Rightarrow> bool" where
  "plainSection section =
     (plainText (ITemplateSection.title section) \<and> plainText (display (placeholder section)) \<and>
      \<not> level2 (display (placeholder section)))"

section \<open>Concrete inputs\<close>

text \<open>The example text of the specification: two numbered headers, each with a body line.\<close>

definition example_text :: jstring where
  "example_text =
     [0x0031, 0x002E, 0x0020, 0xBAA9, 0xD45C, 0x000A,
      0xB2EC, 0xC131, 0xD560, 0x0020, 0xBAA9, 0xD45C, 0xB294, 0x0020, 0xB9E4, 0xCD9C, 0x0020,
      0xC99D, 0xAC00, 0xC785, 0xB2C8, 0xB2E4, 0x002E, 0x000A,
      0x0032, 0x002E, 0x0020, 0xACB0, 0xB860, 0x000A,
      0xC694, 0xC57D, 0xD558, 0xBA74, 0x0020, 0xAE0D, 0xC815, 0xC801, 0xC785, 0xB2C8, 0xB2E4,
      0x002E]"

definition example_line1 :: jstring where
  "example_line1 = [0x0031, 0x002E, 0x0020, 0xBAA9, 0xD45C]"

definition example_line2 :: jstring where
  "example_line2 =
     [0xB2EC, 0xC131, 0xD560, 0x0020, 0xBAA9, 0xD45C, 0xB294, 0x0020, 0xB9E4, 0xCD9C, 0x0020,
      0xC99D, 0xAC00, 0xC785, 0xB2C8, 0xB2E4, 0x002E]"

definition example_line3 :: jstring where
  "example_line3 = [0x0032, 0x002E, 0x0020, 0xACB0, 0xB860]"

definition example_line4 :: jstring where
  "example_line4 =
     [0xC694, 0xC57D, 0xD558, 0xBA74, 0x0020, 0xAE0D, 0xC815, 0xC801, 0xC785, 0xB2C8, 0xB2E4,
      0x002E]"

text \<open>A numbered header followed by a body line without any keyword.\<close>

definition plain_text :: jstring where
  "plain_text = ascii ''1. Plan'' @ [0x000A] @ ascii ''first body line''"

definition two_headers :: jstring where
  "two_headers = ascii ''# A'' @ [0x000A] @ ascii ''# B''"

text \<open>98 letters \<open>a\<close> and then the keyword \<open>kw_overview\<close>: 100 code units.\<close>

definition long_line :: jstring where
  "long_line = replicate 98 0x0061 @ kw_overview"

definition plain_template :: ITemplate where
  "plain_template =
     \<lparr>filename = ascii ''plan.docx'', ITemplate.type = Docx, ITemplate.content = plain_text,
      sections = extractSections plain_text\<rparr>"

definition unsorted_template :: ITemplate where
  "unsorted_template =
     \<lparr>filename = ascii ''plan.docx'', ITemplate.type = Docx, ITemplate.content = [],
      sections =
        [\<lparr>ITemplateSection.title = ascii ''B'', placeholder = Some (ascii ''b''), order = 1,
          ITemplateSection.type = Content\<rparr>,
         \<lparr>ITemplateSection.title = ascii ''A'', placeholder = Some (ascii ''a''), order = 0,
          ITemplateSection.type = Content\<rparr>]\<rparr>"

definition registries_with :: "ITemplate \<Rightarrow> registries" where
  "registries_with t =
     \<lparr>store = (\<lambda>r. t), templates = [ascii ''t1'' \<mapsto> 0], reports = Map.empty\<rparr>"

definition demo_env :: env where
  "demo_env =
     \<lparr>uuid = ascii ''0b8a4f0e-5d1c-4c58-9a55-2f6f0c1d7e11'',
      createdAt = ascii ''2024-01-01T00:00:00.000Z'',
      localeNow = ascii ''1/1/2024, 12:00:00 AM'',
      completedAt = ascii ''2024-01-01T00:00:00.001Z''\<rparr>"

definition demo_request :: "jstring \<Rightarrow> (jstring \<times> jsany) list option \<Rightarrow> request" where
  "demo_request tid ctx =
     \<lparr>templateId = tid, request.title = ascii ''Q1'', prompt = ascii ''sales'', req_context = ctx\<rparr>"

text \<open>A context that \<open>JSON.stringify\<close> rejects: \<open>{ n: 1n }\<close>.\<close>

definition bigint_context :: "(jstring \<times> jsany) list option" where
  "bigint_context = Some [(ascii ''n'', JBigInt 1)]"


text \<open>Every section found so far is plain and has its placeholder set.\<close>

definition wellSeeded :: "scan \<Rightarrow> bool" where
  "wellSeeded st = list_all (\<lambda>s. plainSection s \<and> \<not> falsy (placeholder s)) (finish st)"

text \<open>
  Five sections of all five types, out of order and with two ties, one without a
  placeholder; and a request whose prompt has two lines, the second no heading.
\<close>

definition mixed_template :: ITemplate where
  "mixed_template =
     \<lparr>filename = ascii ''plan.pdf'', ITemplate.type = Pdf, ITemplate.content = [],
      sections =
        [\<lparr>ITemplateSection.title = ascii ''C'', placeholder = Some (ascii ''c''), order = 2,
          ITemplateSection.type = Content\<rparr>,
         \<lparr>ITemplateSection.title = ascii ''A1'', placeholder = None, order = 0,
          ITemplateSection.type = Header\<rparr>,
         \<lparr>ITemplateSection.title = ascii ''B1'', placeholder = Some (ascii ''b1''), order = 1,
          ITemplateSection.type = Table\<rparr>,
         \<lparr>ITemplateSection.title = ascii ''A2'', placeholder = Some (ascii ''a2''), order = 0,
          ITemplateSection.type = List\<rparr>,
         \<lparr>ITemplateSection.title = ascii ''B2'', placeholder = Some (ascii ''b2''), order = 1,
          ITemplateSection.type = Image\<rparr>]\<rparr>"

definition two_line_request :: request where
  "two_line_request =
     (demo_request (ascii ''t1'') None)\<lparr>prompt := ascii ''sales'' @ [nl] @ ascii ''more detail''\<rparr>"

text \<open>A request whose prompt has a second line that begins with \<open>## \<close>.\<close>

definition heading_prompt_request :: request where
  "heading_prompt_request =
     (demo_request (ascii ''t1'') None)\<lparr>prompt := ascii ''sales'' @ [nl] @ ascii ''## extra''\<rparr>"

section \<open>Segmentation: the scan over the lines\<close>

lemma extractSections_finish:
  "extractSections txt =
     (let r = finish (foldl scanLine ([], None, 0) (nonblankLines txt))
      in if r = [] then [defaultSection] else r)"
  by (simp add: extractSections_def finish_def Let_def split: prod.splits)

lemma defaultPlaceholder_nonempty: "defaultPlaceholder t \<noteq> []"
  by (simp add: defaultPlaceholder_def ascii_def)

lemma addContent_keep:
  "\<not> falsy (placeholder c) \<Longrightarrow> addContent c t = c\<lparr>ITemplateSection.type := Content\<rparr>"
  by (simp add: addContent_def Let_def)

lemma scanLine_header:
  "isHeader (trim l) \<Longrightarrow>
   scanLine (secs, cur, ord) l = (pushCurrent secs cur, Some (newSection (trim l) ord), ord + 1)"
  by (simp add: newSection_def Let_def)

lemma scanLine_body:
  "\<not> isHeader (trim l) \<Longrightarrow> trim l \<noteq> [] \<Longrightarrow>
   scanLine (secs, Some c, ord) l = (secs, Some (addContent c (trim l)), ord)"
  by (simp add: Let_def)

lemma newSection_seeded: "\<not> falsy (placeholder (newSection t ord))"
  by (simp add: newSection_def falsy_def defaultPlaceholder_nonempty)

lemma nonblank_member: "l \<in> set (nonblankLines txt) \<Longrightarrow> trim l \<noteq> []"
  by (simp add: nonblankLines_def)

text \<open>Sections already pushed stay where they are.\<close>

lemma finish_prefix: "\<exists>rest. finish (foldl scanLine (secs, cur, ord) ls) = secs @ rest"
proof (induction ls arbitrary: secs cur ord)
  case Nil
  show ?case by (simp add: finish_def pushCurrent_def split: option.splits)
next
  case (Cons l ls)
  show ?case
  proof (cases "isHeader (trim l)")
    case True
    obtain rest where
      "finish (foldl scanLine (pushCurrent secs cur, Some (newSection (trim l) ord), ord + 1) ls) =
       pushCurrent secs cur @ rest"
      using Cons.IH by blast
    with True show ?thesis
      by (cases cur) (auto simp: scanLine_header pushCurrent_def simp del: scanLine.simps)
  next
    case False
    then show ?thesis
      using Cons.IH by (cases cur) (auto simp: Let_def)
  qed
qed

text \<open>
  The open section is pushed right after them, unchanged or with its type promoted: its
  placeholder is set and so is never replaced.
\<close>

lemma finish_open:
  "\<not> falsy (placeholder c) \<Longrightarrow>
   \<exists>c' rest. finish (foldl scanLine (secs, Some c, ord) ls) = secs @ c' # rest \<and>
             (c' = c \<or> c' = c\<lparr>ITemplateSection.type := Content\<rparr>)"
proof (induction ls arbitrary: c)
  case Nil
  show ?case by (simp add: finish_def pushCurrent_def)
next
  case (Cons l ls)
  show ?case
  proof (cases "isHeader (trim l)")
    case True
    obtain rest where
      "finish (foldl scanLine (secs @ [c], Some (newSection (trim l) ord), ord + 1) ls) =
       (secs @ [c]) @ rest"
      using finish_prefix by blast
    with True show ?thesis
      by (simp add: scanLine_header pushCurrent_def del: scanLine.simps)
  next
    case False
    show ?thesis
    proof (cases "trim l = []")
      case True
      with False Cons show ?thesis by (simp add: Let_def)
    next
      case nonblank: False
      have "\<not> falsy (placeholder (c\<lparr>ITemplateSection.type := Content\<rparr>))"
        using Cons.prems by simp
      from Cons.IH [OF this] obtain c' rest where
        "finish (foldl scanLine (secs, Some (c\<lparr>ITemplateSection.type := Content\<rparr>), ord) ls) =
         secs @ c' # rest"
        "c' = c\<lparr>ITemplateSection.type := Content\<rparr> \<or>
         c' = c\<lparr>ITemplateSection.type := Content\<rparr>\<lparr>ITemplateSection.type := Content\<rparr>"
        by blast
      with False nonblank Cons.prems show ?thesis
        by (auto simp: Let_def addContent_keep)
    qed
  qed
qed

text \<open>Every header line adds one section and advances the counter by one.\<close>

lemma scan_count:
  "length (finish (foldl scanLine st ls)) = length (finish st) + headerCount ls \<and>
   counter (foldl scanLine st ls) = counter st + int (headerCount ls)"
proof (induction ls arbitrary: st)
  case Nil
  show ?case by (simp add: headerCount_def)
next
  case (Cons l ls)
  obtain secs cur ord where st: "st = (secs, cur, ord)" by (cases st) auto
  show ?case
  proof (cases "isHeader (trim l)")
    case True
    then show ?thesis
      using Cons.IH [of "scanLine st l"]
      by (simp add: st Let_def finish_def counter_def headerCount_def pushCurrent_def)
  next
    case False
    then show ?thesis
      using Cons.IH [of "scanLine st l"]
      by (cases cur) (auto simp: st Let_def finish_def counter_def headerCount_def pushCurrent_def)
  qed
qed

lemma after_prefix:
  obtains secs cur where
    "foldl scanLine ([], None, 0) pre = (secs, cur, int (headerCount pre))"
    "length (pushCurrent secs cur) = headerCount pre"
proof -
  obtain secs cur ord where st: "foldl scanLine ([], None, 0) pre = (secs, cur, ord)"
    by (cases "foldl scanLine ([], None, 0) pre") auto
  from scan_count [of "([], None, 0)" pre] st
  have "length (pushCurrent secs cur) = headerCount pre" "ord = int (headerCount pre)"
    by (simp_all add: finish_def counter_def pushCurrent_def)
  with st that show ?thesis by blast
qed

subsection \<open>Invariants of the scan\<close>

lemma numbered_step: "numbered st \<Longrightarrow> numbered (scanLine st l)"
proof -
  assume n: "numbered st"
  obtain secs cur ord where st: "st = (secs, cur, ord)" by (cases st) auto
  show ?thesis
  proof (cases "isHeader (trim l)")
    case True
    with n show ?thesis
      by (simp add: st numbered_def finish_def counter_def Let_def pushCurrent_def)
  next
    case False
    with n show ?thesis
      by (cases cur)
         (auto simp: st numbered_def finish_def counter_def Let_def pushCurrent_def addContent_def)
  qed
qed

lemma numbered_scan: "numbered st \<Longrightarrow> numbered (foldl scanLine st ls)"
  by (induction ls arbitrary: st) (simp_all add: numbered_step)



lemma numbered_init: "numbered ([], None, 0)"
  by (simp add: numbered_def finish_def counter_def pushCurrent_def)


lemma defaultSection_fields:
  "order defaultSection = 0" "ITemplateSection.type defaultSection = Content"
  "\<not> falsy (placeholder defaultSection)"
  by (simp_all add: defaultSection_def falsy_def)

lemma extractSections_orders:
  "map order (extractSections txt) = map int [0 ..< length (extractSections txt)]"
  using numbered_scan [OF numbered_init, of "nonblankLines txt"]
  by (simp add: extractSections_finish Let_def numbered_def defaultSection_fields)

lemma extractSections_sorted: "sorted (map order (extractSections txt))"
proof -
  have "sorted (map int [0 ..< length (extractSections txt)])"
    by (simp add: sorted_map)
  then show ?thesis
    by (simp only: extractSections_orders [symmetric])
qed

section \<open>Segmentation: the claims\<close>

text \<open>
  C6. For every input string, \<open>extractSections\<close> returns a non-empty list of sections whose
  \<open>order\<close> values are strictly increasing and start at 0 (they are 0, 1, 2, ... in list
  order). The function is total: no input makes it fail.
\<close>

theorem extractSections_nonempty_numbered:
  "extractSections txt \<noteq> [] \<and>
   map order (extractSections txt) = map int [0 ..< length (extractSections txt)] \<and>
   order (hd (extractSections txt)) = 0 \<and>
   sorted_wrt (<) (map order (extractSections txt))"
proof -
  have ne: "extractSections txt \<noteq> []"
    by (simp add: extractSections_finish Let_def)
  have ords: "map order (extractSections txt) = map int [0 ..< length (extractSections txt)]"
    by (rule extractSections_orders)
  have "hd (map order (extractSections txt)) = 0"
    using ne by (subst ords) (simp add: hd_map upt_conv_Cons)
  then have h: "order (hd (extractSections txt)) = 0"
    using ne by (simp add: hd_map)
  have "sorted_wrt (<) (map int [0 ..< length (extractSections txt)])"
    by (simp add: sorted_wrt_map)
  then have "sorted_wrt (<) (map order (extractSections txt))"
    using ords by simp
  with ne ords h show ?thesis by blast
qed

text \<open>
  C7. Segmenting the empty string yields exactly one section, the default section: its
  title is the five code units of the source's default title, its \<open>order\<close> is 0 and its
  type is \<open>Content\<close>.
\<close>

theorem extractSections_empty:
  "extractSections [] = [defaultSection] \<and>
   ITemplateSection.title defaultSection = [0xC804, 0xCCB4, 0x0020, 0xBB38, 0xC11C] \<and>
   order defaultSection = 0 \<and> ITemplateSection.type defaultSection = Content"
  by (simp add: extractSections_def nonblankLines_def pushCurrent_def trim_def defaultSection_def)



text \<open>
  C8. When two header lines follow one another among the non-blank lines of the input,
  with \<open>k\<close> header lines before them, the output has sections at positions \<open>k\<close> and \<open>k + 1\<close>
  for the two lines (titles the trimmed lines, orders \<open>k\<close> and \<open>k + 1\<close>), and the first of
  the two keeps the type \<open>Header\<close>.
\<close>

theorem consecutive_headers:
  assumes lines: "nonblankLines txt = pre @ h1 # h2 # post"
    and h1: "isHeader (trim h1)" and h2: "isHeader (trim h2)"
  shows "Suc (headerCount pre) < length (extractSections txt) \<and>
         ITemplateSection.title (extractSections txt ! headerCount pre) = trim h1 \<and>
         order (extractSections txt ! headerCount pre) = int (headerCount pre) \<and>
         ITemplateSection.type (extractSections txt ! headerCount pre) = Header \<and>
         ITemplateSection.title (extractSections txt ! Suc (headerCount pre)) = trim h2 \<and>
         order (extractSections txt ! Suc (headerCount pre)) = int (headerCount pre) + 1"
proof -
  let ?k = "headerCount pre"
  obtain secs cur where pre: "foldl scanLine ([], None, 0) pre = (secs, cur, int ?k)"
    and len: "length (pushCurrent secs cur) = ?k"
    by (rule after_prefix)
  let ?P = "pushCurrent secs cur"
  let ?n1 = "newSection (trim h1) (int ?k)"
  let ?n2 = "newSection (trim h2) (int ?k + 1)"
  have "foldl scanLine ([], None, 0) (nonblankLines txt) =
        foldl scanLine (?P @ [?n1], Some ?n2, int ?k + 1 + 1) post"
    using h1 h2 by (simp add: lines pre scanLine_header pushCurrent_def del: scanLine.simps)
  moreover obtain c' rest where
    "finish (foldl scanLine (?P @ [?n1], Some ?n2, int ?k + 1 + 1) post) = (?P @ [?n1]) @ c' # rest"
    "c' = ?n2 \<or> c' = ?n2\<lparr>ITemplateSection.type := Content\<rparr>"
    using finish_open [OF newSection_seeded] by blast
  ultimately have out: "extractSections txt = ?P @ ?n1 # c' # rest"
    and c': "c' = ?n2 \<or> c' = ?n2\<lparr>ITemplateSection.type := Content\<rparr>"
    by (simp_all add: extractSections_finish Let_def)
  have k: "extractSections txt ! ?k = ?n1"
    using len by (simp add: out nth_append)
  have k1: "extractSections txt ! Suc ?k = c'"
    using len by (simp add: out nth_append)
  have "Suc ?k < length (extractSections txt)"
    using len by (simp add: out)
  moreover have "ITemplateSection.title ?n1 = trim h1 \<and> order ?n1 = int ?k \<and>
                 ITemplateSection.type ?n1 = Header"
    by (simp add: newSection_def)
  moreover have "ITemplateSection.title c' = trim h2 \<and> order c' = int ?k + 1"
    using c' by (auto simp: newSection_def)
  ultimately show ?thesis
    using k k1 by simp
qed

theorem consecutive_headers_witness:
  "nonblankLines two_headers = [] @ ascii ''# A'' # ascii ''# B'' # [] \<and>
   isHeader (trim (ascii ''# A'')) \<and> isHeader (trim (ascii ''# B'')) \<and>
   Suc 0 < length (extractSections two_headers) \<and>
   ITemplateSection.title (extractSections two_headers ! 0) = trim (ascii ''# A'') \<and>
   order (extractSections two_headers ! 0) = 0 \<and>
   ITemplateSection.type (extractSections two_headers ! 0) = Header \<and>
   ITemplateSection.title (extractSections two_headers ! Suc 0) = trim (ascii ''# B'') \<and>
   order (extractSections two_headers ! Suc 0) = 1"
proof -
  have l: "nonblankLines two_headers = [] @ ascii ''# A'' # ascii ''# B'' # []" by code_simp
  have a: "isHeader (trim (ascii ''# A''))" by code_simp
  have b: "isHeader (trim (ascii ''# B''))" by code_simp
  show ?thesis
    using l a b consecutive_headers [OF l a b] by (simp add: headerCount_def)
qed

text \<open>
  C2, as amended. When a header line is followed by a non-header line among the non-blank
  lines of the input, with \<open>k\<close> header lines before it, the output has at position \<open>k\<close> a
  section for that header (title the trimmed header line, order \<open>k\<close>) whose type is
  \<open>Content\<close>. The example text of the specification segments into four sections with
  orders 0 to 3, one per line and all of type \<open>Header\<close>: its two body lines each contain a
  keyword and are short, so they are header lines themselves.
\<close>

theorem header_then_body_promoted:
  assumes lines: "nonblankLines txt = pre @ h # b # post"
    and h: "isHeader (trim h)" and b: "\<not> isHeader (trim b)"
  shows "headerCount pre < length (extractSections txt) \<and>
         ITemplateSection.title (extractSections txt ! headerCount pre) = trim h \<and>
         order (extractSections txt ! headerCount pre) = int (headerCount pre) \<and>
         ITemplateSection.type (extractSections txt ! headerCount pre) = Content \<and>
         map (\<lambda>s. (ITemplateSection.title s, order s, ITemplateSection.type s))
             (extractSections example_text) =
           [(example_line1, 0, Header), (example_line2, 1, Header),
            (example_line3, 2, Header), (example_line4, 3, Header)]"
proof -
  let ?k = "headerCount pre"
  obtain secs cur where pre: "foldl scanLine ([], None, 0) pre = (secs, cur, int ?k)"
    and len: "length (pushCurrent secs cur) = ?k"
    by (rule after_prefix)
  let ?P = "pushCurrent secs cur"
  let ?n = "newSection (trim h) (int ?k)"
  let ?c = "?n\<lparr>ITemplateSection.type := Content\<rparr>"
  have "b \<in> set (nonblankLines txt)"
    by (simp add: lines)
  then have nb: "trim b \<noteq> []"
    by (rule nonblank_member)
  have "foldl scanLine ([], None, 0) (nonblankLines txt) =
        foldl scanLine (?P, Some ?c, int ?k + 1) post"
    using h b nb
    by (simp add: lines pre scanLine_header scanLine_body addContent_keep newSection_seeded
             del: scanLine.simps)
  moreover have "\<not> falsy (placeholder ?c)"
    using newSection_seeded [of "trim h" "int ?k"] by simp
  then obtain c' rest where
    "finish (foldl scanLine (?P, Some ?c, int ?k + 1) post) = ?P @ c' # rest"
    "c' = ?c \<or> c' = ?c\<lparr>ITemplateSection.type := Content\<rparr>"
    using finish_open by blast
  ultimately have out: "extractSections txt = ?P @ c' # rest" and c': "c' = ?c"
    by (auto simp: extractSections_finish Let_def)
  have "extractSections txt ! ?k = ?c"
    using len by (simp add: out c' nth_append)
  moreover have "?k < length (extractSections txt)"
    using len by (simp add: out)
  moreover have "map (\<lambda>s. (ITemplateSection.title s, order s, ITemplateSection.type s))
                   (extractSections example_text) =
                 [(example_line1, 0, Header), (example_line2, 1, Header),
                  (example_line3, 2, Header), (example_line4, 3, Header)]"
    by code_simp
  ultimately show ?thesis
    by (simp add: newSection_def)
qed

theorem header_then_body_promoted_witness:
  "nonblankLines plain_text = [] @ ascii ''1. Plan'' # ascii ''first body line'' # [] \<and>
   isHeader (trim (ascii ''1. Plan'')) \<and> \<not> isHeader (trim (ascii ''first body line'')) \<and>
   0 < length (extractSections plain_text) \<and>
   ITemplateSection.title (extractSections plain_text ! 0) = trim (ascii ''1. Plan'') \<and>
   order (extractSections plain_text ! 0) = 0 \<and>
   ITemplateSection.type (extractSections plain_text ! 0) = Content"
proof -
  have l: "nonblankLines plain_text = [] @ ascii ''1. Plan'' # ascii ''first body line'' # []"
    by code_simp
  have a: "isHeader (trim (ascii ''1. Plan''))" by code_simp
  have b: "\<not> isHeader (trim (ascii ''first body line''))" by code_simp
  show ?thesis
    using l a b header_then_body_promoted [OF l a b] by (simp add: headerCount_def)
qed

text \<open>
  C2 as stated fails. In \<open>plain_text\<close> a header line is followed by a body line, and the
  section keeps the generated placeholder instead of the body line; the example text of
  the specification gives four sections, not two.
\<close>

theorem header_then_body_counterexample:
  "nonblankLines plain_text = [ascii ''1. Plan'', ascii ''first body line''] \<and>
   isHeader (ascii ''1. Plan'') \<and> \<not> isHeader (ascii ''first body line'') \<and>
   map placeholder (extractSections plain_text) = [Some (defaultPlaceholder (ascii ''1. Plan''))] \<and>
   defaultPlaceholder (ascii ''1. Plan'') \<noteq> ascii ''first body line'' \<and>
   length (extractSections example_text) = 4 \<and>
   map ITemplateSection.type (extractSections example_text) = [Header, Header, Header, Header]"
  by code_simp

text \<open>
  C3. The claim asks that a line of 100 or more code units that matches no pattern is not
  a header even when it contains a keyword. \<open>long_line\<close> has 100 code units, matches none
  of the six patterns and contains \<open>kw_overview\<close>; \<open>isHeader\<close> accepts it, because the
  length test is attached to the first keyword only.
\<close>

theorem isHeader_long_keyword_line:
  "length long_line = 100 \<and>
   \<not> list_ex (\<lambda>pattern. test pattern long_line) headerPatterns \<and>
   str_includes long_line kw_overview \<and>
   isHeader long_line"
  by code_simp

text \<open>The same line with the first keyword in place of the second is rejected.\<close>

lemma isHeader_long_first_keyword:
  "length (replicate 98 0x0061 @ kw_goal) = 100 \<and> \<not> isHeader (replicate 98 0x0061 @ kw_goal)"
  by code_simp

section \<open>Report generation\<close>

lemma generateContent_cases:
  "(\<exists>ex. generateContentForTemplate e st r p c = (st, Inl ex) \<and>
         systemPrompt (st r) p c = Inl ex) \<or>
   (\<exists>txt. generateContentForTemplate e st r p c = (st(r := sortSections (st r)), Inr txt))"
  by (cases "systemPrompt (st r) p c")
     (simp_all add: generateContentForTemplate_def Let_def sortSections_def)

lemma generateContent_throws:
  "snd (generateContentForTemplate e st r p c) = Inl ex \<Longrightarrow>
   generateContentForTemplate e st r p c = (st, Inl ex)"
  using generateContent_cases [of e st r p c] by auto

lemma sortSections_sorted: "sorted (map order (sections t)) \<Longrightarrow> sortSections t = t"
  by (simp add: sortSections_def sort_key_id_if_sorted)

text \<open>
  C9. For a \<open>templateId\<close> that the templates registry does not hold, \<open>generateReport\<close>
  returns the failure response (empty \<open>reportId\<close>, status failed, the message
  \<open>Template not found\<close>) and leaves the registries as they were: nothing is added to the
  reports, and synthesis is not entered.
\<close>

theorem generateReport_unknown_template:
  "templates s (templateId req) = None \<Longrightarrow>
   generateReport e s req =
     (\<lparr>reportId = [], status = Resp_failed, content = None,
       error = Some (ascii ''Template not found'')\<rparr>, s)"
  by (simp add: generateReport_def failedResponse_def message_def)

theorem generateReport_unknown_template_witness:
  "templates (registries_with plain_template) (templateId (demo_request (ascii ''t9'') None)) = None \<and>
   generateReport demo_env (registries_with plain_template) (demo_request (ascii ''t9'') None) =
     (\<lparr>reportId = [], status = Resp_failed, content = None,
       error = Some (ascii ''Template not found'')\<rparr>, registries_with plain_template)"
proof -
  have n: "templates (registries_with plain_template)
             (templateId (demo_request (ascii ''t9'') None)) = None"
    by code_simp
  show ?thesis
    using n generateReport_unknown_template [OF n] by simp
qed

text \<open>
  C1, as amended. When the template is found and synthesis throws, \<open>generateReport\<close>
  returns the failure response (empty \<open>reportId\<close>, status failed, the exception's message);
  the registries afterwards differ from those before in one entry only: the reports
  registry holds, under the id allocated for the attempt, the report stored before
  synthesis began, in state \<open>Processing\<close> and with empty content.
\<close>

theorem generateReport_synthesis_failure:
  assumes found: "templates s (templateId req) = Some r"
    and throws: "snd (generateContentForTemplate e (store s) r (prompt req) (req_context req)) = Inl ex"
  shows "generateReport e s req =
           (\<lparr>reportId = [], status = Resp_failed, content = None, error = Some (message ex)\<rparr>,
            s\<lparr>reports := (reports s)(uuid e \<mapsto> processingReport e req r)\<rparr>)"
proof -
  have "generateContentForTemplate e (store s) r (prompt req) (req_context req) = (store s, Inl ex)"
    using throws by (rule generateContent_throws)
  then show ?thesis
    by (simp add: generateReport_def found Let_def failedResponse_def processingReport_def)
qed

theorem generateReport_synthesis_failure_witness:
  "templates (registries_with plain_template)
     (templateId (demo_request (ascii ''t1'') bigint_context)) = Some 0 \<and>
   snd (generateContentForTemplate demo_env (store (registries_with plain_template)) 0
          (prompt (demo_request (ascii ''t1'') bigint_context))
          (req_context (demo_request (ascii ''t1'') bigint_context))) =
     Inl (TypeError (ascii ''Do not know how to serialize a BigInt'')) \<and>
   generateReport demo_env (registries_with plain_template)
       (demo_request (ascii ''t1'') bigint_context) =
     (\<lparr>reportId = [], status = Resp_failed, content = None,
       error = Some (ascii ''Do not know how to serialize a BigInt'')\<rparr>,
      (registries_with plain_template)
        \<lparr>reports := (reports (registries_with plain_template))
           (uuid demo_env \<mapsto>
              processingReport demo_env (demo_request (ascii ''t1'') bigint_context) 0)\<rparr>)"
proof -
  have f: "templates (registries_with plain_template)
             (templateId (demo_request (ascii ''t1'') bigint_context)) = Some 0"
    by code_simp
  have t: "snd (generateContentForTemplate demo_env (store (registries_with plain_template)) 0
             (prompt (demo_request (ascii ''t1'') bigint_context))
             (req_context (demo_request (ascii ''t1'') bigint_context))) =
           Inl (TypeError (ascii ''Do not know how to serialize a BigInt''))"
    by code_simp
  show ?thesis
    using f t generateReport_synthesis_failure [OF f t] by (simp add: message_def)
qed

text \<open>
  C1 as stated fails: with a context that cannot be serialised, synthesis throws, the
  response is the failure response, and the reports registry, empty before, holds a
  report in state \<open>Processing\<close> afterwards.
\<close>

theorem failed_attempt_leaves_processing_report:
  "snd (generateContentForTemplate demo_env (store (registries_with plain_template)) 0
          (prompt (demo_request (ascii ''t1'') bigint_context))
          (req_context (demo_request (ascii ''t1'') bigint_context))) =
     Inl (TypeError (ascii ''Do not know how to serialize a BigInt'')) \<and>
   reportId (fst (generateReport demo_env (registries_with plain_template)
                    (demo_request (ascii ''t1'') bigint_context))) = [] \<and>
   IGenerateResponse.status (fst (generateReport demo_env (registries_with plain_template)
                    (demo_request (ascii ''t1'') bigint_context))) = Resp_failed \<and>
   reports (registries_with plain_template) (uuid demo_env) = None \<and>
   map_option IReport.status
     (reports (snd (generateReport demo_env (registries_with plain_template)
                      (demo_request (ascii ''t1'') bigint_context))) (uuid demo_env)) =
     Some Processing"
  by code_simp

text \<open>
  C4, as amended. \<open>generateReport\<close> on a template that is found leaves the templates
  registry as it was, and the store of template objects either as it was or with the
  sections list of that one template replaced by its stable sort by \<open>order\<close> (same
  elements, nothing else of the template touched). When the sections list is already in
  ascending order, as every list that \<open>extractSections\<close> returns is, the template after the
  call is the template before it.
\<close>

theorem generateReport_template_frame:
  assumes found: "templates s (templateId req) = Some r"
  shows "templates (snd (generateReport e s req)) = templates s \<and>
         (store (snd (generateReport e s req)) = store s \<or>
          store (snd (generateReport e s req)) = (store s)(r := sortSections (store s r))) \<and>
         (sorted (map order (sections (store s r))) \<longrightarrow>
            store (snd (generateReport e s req)) = store s) \<and>
         mset (sections (sortSections (store s r))) = mset (sections (store s r)) \<and>
         sorted (map order (extractSections txt))"
proof -
  let ?g = "generateContentForTemplate e (store s) r (prompt req) (req_context req)"
  have st: "store (snd (generateReport e s req)) = fst ?g"
    by (simp add: generateReport_def found Let_def split: prod.splits sum.splits)
  have tm: "templates (snd (generateReport e s req)) = templates s"
    by (simp add: generateReport_def found Let_def split: prod.splits sum.splits)
  have alt: "fst ?g = store s \<or> fst ?g = (store s)(r := sortSections (store s r))"
    using generateContent_cases [of e "store s" r "prompt req" "req_context req"] by auto
  have "fst ?g = store s" if "sorted (map order (sections (store s r)))"
    using alt sortSections_sorted [OF that] by auto
  moreover have "mset (sections (sortSections (store s r))) = mset (sections (store s r))"
    by (simp add: sortSections_def)
  ultimately show ?thesis
    using st tm alt extractSections_sorted by simp
qed

theorem generateReport_template_frame_witness:
  "templates (registries_with plain_template) (templateId (demo_request (ascii ''t1'') None)) = Some 0 \<and>
   sorted (map order (sections (store (registries_with plain_template) 0))) \<and>
   templates (snd (generateReport demo_env (registries_with plain_template)
                     (demo_request (ascii ''t1'') None))) =
     templates (registries_with plain_template) \<and>
   store (snd (generateReport demo_env (registries_with plain_template)
                 (demo_request (ascii ''t1'') None))) =
     store (registries_with plain_template)"
proof -
  have f: "templates (registries_with plain_template)
             (templateId (demo_request (ascii ''t1'') None)) = Some 0"
    by code_simp
  have s: "sorted (map order (sections (store (registries_with plain_template) 0)))"
    by code_simp
  show ?thesis
    using f s generateReport_template_frame [OF f, of demo_env] by simp
qed

text \<open>
  C4 as stated fails: the sections of \<open>unsorted_template\<close> have orders 1, 0; after a
  successful \<open>generateReport\<close> the template in the store has them in the opposite
  positions.
\<close>

theorem generateReport_reorders_template:
  "map order (sections (store (registries_with unsorted_template) 0)) = [1, 0] \<and>
   IGenerateResponse.status (fst (generateReport demo_env (registries_with unsorted_template)
                                    (demo_request (ascii ''t1'') None))) = Resp_completed \<and>
   map order (sections (store (snd (generateReport demo_env (registries_with unsorted_template)
                                      (demo_request (ascii ''t1'') None))) 0)) = [0, 1]"
  by code_simp

section \<open>The headings of the generated content\<close>

lemma split_on_nonempty: "split_on sep s \<noteq> []"
  by (induction s) (auto split: list.splits)

lemma split_on_feed: "split_on sep (a @ sep # b) = split_on sep a @ split_on sep b"
proof (induction a)
  case Nil
  show ?case by simp
next
  case (Cons c cs)
  then show ?case
    using split_on_nonempty [of sep cs] by (cases "split_on sep cs") auto
qed

lemma split_on_plain: "sep \<notin> set a \<Longrightarrow> split_on sep a = [a]"
  by (induction a) auto

lemma split_on_append:
  "split_on sep (a @ b) =
     butlast (split_on sep a) @ (last (split_on sep a) @ hd (split_on sep b)) # tl (split_on sep b)"
proof (induction a)
  case Nil
  show ?case using split_on_nonempty [of sep b] by simp
next
  case (Cons c cs)
  show ?case
  proof (cases "c = sep")
    case True
    then show ?thesis
      using Cons.IH split_on_nonempty [of sep cs] by simp
  next
    case False
    obtain l ls where cs: "split_on sep cs = l # ls"
      using split_on_nonempty [of sep cs] by (cases "split_on sep cs") auto
    show ?thesis
      using False Cons.IH by (cases ls) (simp_all add: cs)
  qed
qed

lemma split_unlines:
  "split_on nl (unlines ls @ r) = concat (map (split_on nl) ls) @ split_on nl r"
  by (induction ls) (simp_all add: unlines_def split_on_feed)

lemma unlines_append: "unlines (xs @ ys) = unlines xs @ unlines ys"
  by (simp add: unlines_def)

lemma unlines_concat: "concat (map unlines xss) = unlines (concat xss)"
  by (induction xss) (simp_all add: unlines_def)

text \<open>What follows the third code unit of a line does not matter.\<close>

lemma level2_inert:
  "x \<noteq> [] \<Longrightarrow> hd x \<noteq> 0x0023 \<Longrightarrow> hd x \<noteq> 0x0020 \<Longrightarrow> level2 (l @ x) = level2 l"
proof -
  assume x: "x \<noteq> []" "hd x \<noteq> 0x0023" "hd x \<noteq> 0x0020"
  then obtain y ys where xs: "x = y # ys" "y \<noteq> 0x0023" "y \<noteq> 0x0020"
    by (cases x) auto
  show ?thesis
  proof (cases l)
    case Nil
    then show ?thesis using xs by (auto simp: level2_def startsWith_def ascii_def)
  next
    case (Cons a l1)
    show ?thesis
    proof (cases l1)
      case Nil
      then show ?thesis using xs Cons by (auto simp: level2_def startsWith_def ascii_def)
    next
      case (Cons b l2)
      then show ?thesis
        using xs \<open>l = a # l1\<close> by (cases l2) (auto simp: level2_def startsWith_def ascii_def)
    qed
  qed
qed

lemma plainText_append [simp]: "plainText (a @ b) = (plainText a \<and> plainText b)"
  by (auto simp: plainText_def)

lemma plainText_Nil [simp]: "plainText []"
  by (simp add: plainText_def)

lemma lines_plain: "plainText s \<Longrightarrow> split_on nl s = [s]"
  by (simp add: plainText_def split_on_plain)

lemma lines_prefix:
  "plainText p \<Longrightarrow> split_on nl (p @ t) = (p @ hd (split_on nl t)) # tl (split_on nl t)"
  by (simp add: split_on_append [of nl p t] lines_plain)

lemma later_plain: "plainText s \<Longrightarrow> later s = []"
  by (simp add: later_def laterLines_def lines_plain)

lemma later_prefix: "plainText p \<Longrightarrow> later (p @ t) = later t"
  by (simp add: later_def laterLines_def lines_prefix)

lemma own_prefix:
  "plainText p \<Longrightarrow>
   own (p @ t) = (if level2 (p @ hd (split_on nl t)) then [p @ hd (split_on nl t)] else []) @ later t"
  by (simp add: own_def later_def laterLines_def lines_prefix)

lemma quiet_append:
  assumes "b \<noteq> []" "hd b \<noteq> 0x0023" "hd b \<noteq> 0x0020" "hd b \<noteq> nl"
  shows "quiet (a @ b) = (quiet a \<and> quiet b)"
proof -
  obtain y ys where b: "b = y # ys" "y \<noteq> 0x0023" "y \<noteq> 0x0020" "y \<noteq> nl"
    using assms by (cases b) auto
  obtain m ms where lb: "split_on nl b = m # ms"
    using split_on_nonempty [of nl b] by (cases "split_on nl b") auto
  have m: "m \<noteq> [] \<and> hd m = y"
    using lb b by (auto simp: nl_def split: if_splits list.splits)
  obtain l ls where la: "split_on nl a = l # ls"
    using split_on_nonempty [of nl a] by (cases "split_on nl a") auto
  have qb: "later b = filter level2 ms"
    by (simp add: later_def laterLines_def lb)
  show ?thesis
  proof (cases ls)
    case Nil
    then show ?thesis
      by (simp add: quiet_def later_def laterLines_def split_on_append [of nl a b] la lb)
  next
    case (Cons k ks)
    define bu where "bu = butlast (k # ks)"
    define la' where "la' = last (k # ks)"
    have e: "k # ks = bu @ [la']"
      by (simp add: bu_def la'_def)
    have i: "level2 (la' @ m) = level2 la'"
      using m b by (intro level2_inert) auto
    have "split_on nl (a @ b) = (l # bu) @ (la' @ m) # ms"
      using Cons by (simp add: split_on_append [of nl a b] la lb bu_def la'_def)
    then have "later (a @ b) = filter level2 bu @ filter level2 [la' @ m] @ filter level2 ms"
      by (simp add: later_def laterLines_def)
    moreover have "later a = filter level2 bu @ filter level2 [la']"
      using Cons e by (simp add: later_def laterLines_def la)
    ultimately show ?thesis
      using i qb by (simp add: quiet_def)
  qed
qed

lemma table_block_lines: "table_block = unlines (butlast (split_on nl table_block))"
  by code_simp

lemma list_block_lines: "list_block = unlines (butlast (split_on nl list_block))"
  by code_simp

lemma written_suffix_end: "written_suffix = written_tail @ [nl, nl]"
  by code_simp

lemma detail_suffix_end: "detail_suffix = detail_tail @ [nl, nl]"
  by code_simp

lemma report_suffix_end: "report_suffix = report_tail @ [nl, nl]"
  by code_simp

lemma footer_done_start: "footer_done = [nl] @ ascii ''---'' @ [nl] @ drop 5 footer_done"
  by code_simp

lemma appendSection_acc: "appendSection p acc sec = acc @ appendSection p [] sec"
  by (cases "ITemplateSection.type sec") (simp_all add: appendSection_def Let_def)

lemma foldl_appendSection:
  "foldl (appendSection p) acc xs = acc @ concat (map (appendSection p []) xs)"
proof (induction xs arbitrary: acc)
  case Nil
  show ?case by simp
next
  case (Cons x xs)
  show ?case
    by (simp add: Cons.IH [of "appendSection p acc x"]) (simp add: appendSection_acc [of p acc x])
qed

lemma appendSection_lines: "appendSection p [] sec = unlines (sectionLines p sec)"
proof -
  have c: "ascii ''['' @ p @ related_infix @ ITemplateSection.title sec @ written_suffix =
        (ascii ''['' @ p @ related_infix @ ITemplateSection.title sec @ written_tail) @ [nl, nl]"
    by (subst written_suffix_end) simp
  have d: "ascii ''### '' @ ITemplateSection.title sec @ detail_suffix =
        (ascii ''### '' @ ITemplateSection.title sec @ detail_tail) @ [nl, nl]"
    by (subst detail_suffix_end) simp
  show ?thesis
  proof (cases "ITemplateSection.type sec")
    case Header
    then show ?thesis
      by (simp add: appendSection_def Let_def sectionLines_def bodyLines_def unlines_def d)
  next
    case Content
    then show ?thesis
      by (simp add: appendSection_def Let_def sectionLines_def bodyLines_def unlines_def c)
  next
    case Table
    then show ?thesis
      using table_block_lines
      by (simp add: appendSection_def Let_def sectionLines_def bodyLines_def unlines_def)
  next
    case List
    then show ?thesis
      using list_block_lines
      by (simp add: appendSection_def Let_def sectionLines_def bodyLines_def unlines_def)
  next
    case Image
    then show ?thesis
      by (simp add: appendSection_def Let_def sectionLines_def bodyLines_def unlines_def)
  qed
qed

text \<open>The content is the header pieces, the pieces of the sorted sections and the footer pieces.\<close>

lemma generateContent_lines:
  assumes "generateContentForTemplate e st r p c = (st', Inr txt)"
  shows "txt = unlines (headerLines (filename (st r)) @
                        concat (map (sectionLines p) (sort_key order (sections (st r)))) @
                        footerLines (localeNow e) (filename (st r)))"
proof -
  let ?sorted = "sort_key order (sections (st r))"
  have h: "ascii ''# '' @ filename (st r) @ report_suffix = unlines (headerLines (filename (st r)))"
    by (subst report_suffix_end) (simp add: unlines_def headerLines_def)
  have f: "(footer_done @ localeNow e @ [nl]) @ (footer_template @ filename (st r) @ [nl]) =
           unlines (footerLines (localeNow e) (filename (st r)))"
    by (subst footer_done_start) (simp add: unlines_def footerLines_def)
  have m: "concat (map (appendSection p []) ?sorted) = unlines (concat (map (sectionLines p) ?sorted))"
  proof -
    have "appendSection p [] = (\<lambda>sec. unlines (sectionLines p sec))"
      by (rule ext) (rule appendSection_lines)
    then show ?thesis
      by (simp add: unlines_concat [symmetric] comp_def)
  qed
  have "txt = (ascii ''# '' @ filename (st r) @ report_suffix) @
              concat (map (appendSection p []) ?sorted) @
              ((footer_done @ localeNow e @ [nl]) @ (footer_template @ filename (st r) @ [nl]))"
    using assms
    by (auto simp: generateContentForTemplate_def Let_def foldl_appendSection split: sum.splits)
  then show ?thesis
    by (simp only: h f m unlines_append)
qed

text \<open>The heading lines of the content, piece by piece.\<close>

lemma level2Headings_unlines: "level2Headings (unlines ls) = concat (map own ls)"
proof -
  have "split_on nl (unlines ls @ []) = concat (map (split_on nl) ls) @ split_on nl []"
    by (rule split_unlines)
  then have "level2Headings (unlines ls) = filter level2 (concat (map (split_on nl) ls))"
    by (simp add: level2Headings_def level2_def startsWith_def ascii_def)
  also have "\<dots> = concat (map own ls)"
    by (induction ls) (simp_all add: own_def)
  finally show ?thesis .
qed

lemma plain_constants:
  "plainText (ascii ''## '')" "plainText (ascii ''### '')" "plainText (ascii ''['')"
  "plainText (ascii ''# '')" "plainText (ascii ''---'')"
  "plainText related_infix" "plainText written_tail"
  "plainText detail_tail" "plainText report_tail"
  "plainText (drop 5 footer_done)" "plainText footer_template"
  by (code_simp+)

lemma own_constants:
  "concat (map own (butlast (split_on nl table_block))) = []"
  "concat (map own (butlast (split_on nl list_block))) = []"
  "own [] = []" "own (ascii ''---'') = []"
  by (code_simp+)

lemma level2_prefixes:
  "level2 (ascii ''## '' @ t)" "\<not> level2 (ascii ''### '' @ t)" "\<not> level2 (ascii ''['' @ t)"
  "\<not> level2 (ascii ''# '' @ t)" "\<not> level2 (drop 5 footer_done @ t)"
  "\<not> level2 (footer_template @ t)"
  by (simp_all add: level2_def startsWith_def ascii_def footer_done_def footer_template_def)

lemma section_headings:
  "concat (map own (sectionLines p sec)) = heading sec # extra p sec"
  by (cases "ITemplateSection.type sec")
     (simp_all add: sectionLines_def bodyLines_def extra_def heading_def own_prefix later_prefix
                    plain_constants level2_prefixes own_constants)

lemma header_headings: "concat (map own (headerLines fname)) = later (fname @ report_tail)"
  by (simp add: headerLines_def own_prefix plain_constants level2_prefixes own_constants)

lemma footer_headings: "concat (map own (footerLines stamp fname)) = later stamp @ later fname"
  by (simp add: footerLines_def own_prefix plain_constants level2_prefixes own_constants)

lemma generateContent_level2:
  assumes "generateContentForTemplate e st r p c = (st', Inr txt)"
  shows "level2Headings txt =
           later (filename (st r) @ report_tail) @
           concat (map (\<lambda>sec. heading sec # extra p sec) (sort_key order (sections (st r)))) @
           later (localeNow e) @ later (filename (st r))"
proof -
  have "concat (map own (concat (map (sectionLines p) xs))) =
        concat (map (\<lambda>sec. heading sec # extra p sec) xs)" for xs
    by (induction xs) (simp_all add: section_headings)
  then show ?thesis
    by (simp add: generateContent_lines [OF assms] level2Headings_unlines header_headings
                  footer_headings)
qed

text \<open>When the added lines are none.\<close>

lemma inert_literals:
  "report_tail \<noteq> [] \<and> hd report_tail \<noteq> 0x0023 \<and> hd report_tail \<noteq> 0x0020 \<and> hd report_tail \<noteq> nl"
  "related_infix \<noteq> [] \<and> hd related_infix \<noteq> 0x0023 \<and> hd related_infix \<noteq> 0x0020 \<and>
   hd related_infix \<noteq> nl"
  by (code_simp+)

lemma quiet_plain: "plainText s \<Longrightarrow> quiet s"
  by (simp add: quiet_def later_plain)

lemma quiet_filename: "quiet (fname @ report_tail) = quiet fname"
  using inert_literals(1) by (simp add: quiet_append quiet_plain plain_constants)

lemma quiet_body:
  "quiet (p @ related_infix @ t @ written_tail) = (quiet p \<and> quiet (t @ written_tail))"
proof -
  have "related_infix @ t @ written_tail \<noteq> []"
    "hd (related_infix @ t @ written_tail) = hd related_infix"
    using inert_literals(2) by simp_all
  then have "quiet (p @ related_infix @ t @ written_tail) =
             (quiet p \<and> quiet (related_infix @ t @ written_tail))"
    using inert_literals(2) by (intro quiet_append) simp_all
  then show ?thesis
    by (simp add: quiet_def later_prefix plain_constants)
qed

lemma extra_empty: "(extra p sec = []) = headingSafe p sec"
  using quiet_body [of p "ITemplateSection.title sec"]
  by (cases "ITemplateSection.type sec")
     (auto simp: extra_def headingSafe_def quiet_def silent_def)

lemma headings_length:
  "length (concat (map (\<lambda>sec. heading sec # extra p sec) xs)) =
     length xs + length (concat (map (extra p) xs))"
  by (induction xs) simp_all

lemma headings_safe:
  "list_all (headingSafe p) xs \<Longrightarrow>
   concat (map (\<lambda>sec. heading sec # extra p sec) xs) = map heading xs"
  by (induction xs) (simp_all add: extra_empty)

lemma extras_empty:
  "(concat (map (extra p) xs) = []) = list_all (headingSafe p) xs"
  by (induction xs) (simp_all add: extra_empty)

lemma list_all_sort_key: "list_all P (sort_key f xs) = list_all P xs"
  by (simp add: list_all_iff)

lemma generateContent_headings:
  assumes gen: "generateContentForTemplate e st r p c = (st', Inr txt)"
    and safe: "noForeignHeading e (st r) p"
  shows "level2Headings txt = map heading (sort_key order (sections (st r)))"
proof -
  have "later (filename (st r) @ report_tail) = []" "later (localeNow e) = []"
    "later (filename (st r)) = []"
    using safe quiet_filename [of "filename (st r)"]
    by (simp_all add: noForeignHeading_def quiet_def)
  moreover have "list_all (headingSafe p) (sort_key order (sections (st r)))"
    using safe by (simp add: noForeignHeading_def list_all_sort_key)
  ultimately show ?thesis
    by (simp add: generateContent_level2 [OF gen] headings_safe)
qed

lemma generateContent_count:
  assumes gen: "generateContentForTemplate e st r p c = (st', Inr txt)"
  shows "length (level2Headings txt) =
           length (sections (st r)) +
           (length (later (filename (st r) @ report_tail)) +
            length (concat (map (extra p) (sort_key order (sections (st r))))) +
            length (later (localeNow e)) + length (later (filename (st r))))"
  by (simp add: generateContent_level2 [OF gen] headings_length)

lemma generateContent_exact:
  assumes gen: "generateContentForTemplate e st r p c = (st', Inr txt)"
  shows "(length (level2Headings txt) = length (sections (st r))) = noForeignHeading e (st r) p"
proof
  assume "length (level2Headings txt) = length (sections (st r))"
  then have l: "later (filename (st r)) = []" "later (localeNow e) = []"
    and x: "concat (map (extra p) (sort_key order (sections (st r)))) = []"
    using generateContent_count [OF gen] by simp_all
  from x have "list_all (headingSafe p) (sort_key order (sections (st r)))"
    by (simp only: extras_empty)
  then have "list_all (headingSafe p) (sections (st r))"
    by (simp only: list_all_sort_key)
  with l show "noForeignHeading e (st r) p"
    by (simp add: noForeignHeading_def quiet_def)
next
  assume "noForeignHeading e (st r) p"
  then show "length (level2Headings txt) = length (sections (st r))"
    using generateContent_headings [OF gen] by simp
qed

text \<open>Sections that come from \<open>extractSections\<close> have single-line titles and placeholders.\<close>

lemma split_on_pieces: "list_all (\<lambda>l. sep \<notin> set l) (split_on sep s)"
  by (induction s) (auto split: list.splits)

lemma trim_plain: "plainText l \<Longrightarrow> plainText (trim l)"
  by (auto simp: plainText_def trim_def dest!: set_dropWhileD)

lemma newSection_plain: "plainText t \<Longrightarrow> plainSection (newSection t ord)"
  by (simp add: newSection_def plainSection_def display_def defaultPlaceholder_def level2_prefixes)
     (simp add: plainText_def ascii_def placeholder_suffix_def nl_def)

lemma wellSeeded_step: "wellSeeded st \<Longrightarrow> plainText l \<Longrightarrow> wellSeeded (scanLine st l)"
proof -
  assume n: "wellSeeded st" and p: "plainText l"
  obtain secs cur ord where st: "st = (secs, cur, ord)" by (cases st) auto
  show ?thesis
  proof (cases "isHeader (trim l)")
    case True
    with n newSection_plain [OF trim_plain [OF p], of ord] newSection_seeded [of "trim l" ord]
    show ?thesis
      by (cases cur)
         (auto simp: st wellSeeded_def finish_def scanLine_header pushCurrent_def
               simp del: scanLine.simps)
  next
    case False
    with n show ?thesis
      by (cases cur)
         (auto simp: st wellSeeded_def finish_def Let_def pushCurrent_def addContent_def
                     plainSection_def)
  qed
qed

lemma wellSeeded_scan:
  "wellSeeded st \<Longrightarrow> list_all plainText ls \<Longrightarrow> wellSeeded (foldl scanLine st ls)"
  by (induction ls arbitrary: st) (simp_all add: wellSeeded_step)

lemma nonblankLines_plain: "list_all plainText (nonblankLines txt)"
  using split_on_pieces [of nl]
  by (auto simp: nonblankLines_def list_all_iff plainText_def nl_def)

lemma defaultSection_plain: "plainSection defaultSection"
  by code_simp

lemma extractSections_plain: "list_all plainSection (extractSections txt)"
proof -
  have "wellSeeded ([], None, 0)"
    by (simp add: wellSeeded_def finish_def pushCurrent_def)
  then have "wellSeeded (foldl scanLine ([], None, 0) (nonblankLines txt))"
    using nonblankLines_plain by (rule wellSeeded_scan)
  then show ?thesis
    by (simp add: extractSections_finish Let_def wellSeeded_def defaultSection_plain list_all_iff)
qed

lemma plainSection_safe: "plainSection sec \<Longrightarrow> quiet p \<Longrightarrow> headingSafe p sec"
  by (cases "ITemplateSection.type sec")
     (simp_all add: plainSection_def headingSafe_def quiet_plain plain_constants silent_def
                    own_def lines_plain)

lemma extractSections_headingSafe:
  "quiet p \<Longrightarrow> list_all (headingSafe p) (extractSections txt)"
  using extractSections_plain by (auto simp: list_all_iff plainSection_safe)

lemma heading_plain:
  "plainText (ITemplateSection.title sec) \<Longrightarrow> heading sec = ascii ''## '' @ ITemplateSection.title sec"
  by (simp add: heading_def lines_plain)

text \<open>
  C5, as amended. Let the template be found and \<open>generateReport\<close> succeed with content
  \<open>c\<close>, and let N be the number of the template's sections. The content has at least N
  lines that begin with \<open>## \<close>, and it has exactly N of them if and only if none of the
  texts copied into it brings such a line of its own: no line of a placeholder begins
  with \<open>## \<close>, and no line after the first does so in the file name, in the time stamp, in
  a title (also with the literal that follows it in the detail line of a header-type and
  in the body line of a content-type section) or, when there is a content-type section,
  in the prompt. The texts may have line breaks otherwise. In that case the lines that
  begin with \<open>## \<close> are the headings of the sections, \<open>## \<close> and the title (its first line),
  one per section, in the order of the stable sort of the sections by \<open>order\<close>: ascending,
  sections of equal order in their original relative positions. The conditions on the
  sections hold for every list that \<open>extractSections\<close> returns, whenever they hold for the
  prompt.
\<close>

theorem generateReport_headings:
  assumes found: "templates s (templateId req) = Some r"
    and ok: "IGenerateResponse.content (fst (generateReport e s req)) = Some c"
  shows "(noForeignHeading e (store s r) (prompt req) \<longrightarrow>
            level2Headings c = map heading (sort_key order (sections (store s r)))) \<and>
         (length (level2Headings c) = length (sections (store s r))) =
            noForeignHeading e (store s r) (prompt req) \<and>
         length (sections (store s r)) \<le> length (level2Headings c) \<and>
         sorted (map order (sort_key order (sections (store s r)))) \<and>
         filter (\<lambda>sec. order sec = k) (sort_key order (sections (store s r))) =
           filter (\<lambda>sec. order sec = k) (sections (store s r)) \<and>
         (plainText (ITemplateSection.title sec) \<longrightarrow>
            heading sec = ascii ''## '' @ ITemplateSection.title sec) \<and>
         (quiet (prompt req) \<longrightarrow> list_all (headingSafe (prompt req)) (extractSections txt))"
proof -
  let ?g = "generateContentForTemplate e (store s) r (prompt req) (req_context req)"
  obtain st' res where g: "?g = (st', res)"
    by (cases ?g) auto
  have "res = Inr c"
    using ok
    by (cases res) (simp_all add: generateReport_def found Let_def g failedResponse_def)
  then have gen: "?g = (st', Inr c)"
    using g by simp
  have "noForeignHeading e (store s r) (prompt req) \<longrightarrow>
        level2Headings c = map heading (sort_key order (sections (store s r)))"
    using generateContent_headings [OF gen] by simp
  moreover have "(length (level2Headings c) = length (sections (store s r))) =
                 noForeignHeading e (store s r) (prompt req)"
    by (rule generateContent_exact [OF gen])
  moreover have "length (sections (store s r)) \<le> length (level2Headings c)"
    using generateContent_count [OF gen] by simp
  moreover have "sorted (map order (sort_key order (sections (store s r))))"
    by simp
  moreover have "filter (\<lambda>sec. order sec = k) (sort_key order (sections (store s r))) =
                 filter (\<lambda>sec. order sec = k) (sections (store s r))"
    by (rule sort_key_stable)
  ultimately show ?thesis
    using heading_plain extractSections_headingSafe by simp
qed

theorem generateReport_headings_witness:
  "templates (registries_with mixed_template) (templateId two_line_request) = Some 0 \<and>
   noForeignHeading demo_env (store (registries_with mixed_template) 0) (prompt two_line_request) \<and>
   \<not> plainText (prompt two_line_request) \<and>
   map order (sections (store (registries_with mixed_template) 0)) = [2, 0, 1, 0, 1] \<and>
   map_option level2Headings
     (IGenerateResponse.content
        (fst (generateReport demo_env (registries_with mixed_template) two_line_request))) =
     Some [ascii ''## A1'', ascii ''## A2'', ascii ''## B1'', ascii ''## B2'', ascii ''## C'']"
proof -
  let ?s = "registries_with mixed_template"
  have f: "templates ?s (templateId two_line_request) = Some 0" by code_simp
  have a: "noForeignHeading demo_env (store ?s 0) (prompt two_line_request)" by code_simp
  have p: "\<not> plainText (prompt two_line_request)" by code_simp
  have o: "map order (sections (store ?s 0)) = [2, 0, 1, 0, 1]" by code_simp
  have "IGenerateResponse.content (fst (generateReport demo_env ?s two_line_request)) \<noteq> None"
    by code_simp
  then obtain c where
    c: "IGenerateResponse.content (fst (generateReport demo_env ?s two_line_request)) = Some c"
    by auto
  have "map heading (sort_key order (sections (store ?s 0))) =
        [ascii ''## A1'', ascii ''## A2'', ascii ''## B1'', ascii ''## B2'', ascii ''## C'']"
    by code_simp
  then have "level2Headings c =
             [ascii ''## A1'', ascii ''## A2'', ascii ''## B1'', ascii ''## B2'', ascii ''## C'']"
    using generateReport_headings [OF f c] a by simp
  then show ?thesis
    using f a p o c by simp
qed

text \<open>
  C5 as stated fails: \<open>plain_template\<close> has one section, of type \<open>Content\<close>; with a prompt
  whose second line begins with \<open>## \<close> the generated content has two lines that begin with
  \<open>## \<close>.
\<close>

theorem prompt_line_counts_as_heading:
  "length (sections (store (registries_with plain_template) 0)) = 1 \<and>
   IGenerateResponse.status
     (fst (generateReport demo_env (registries_with plain_template) heading_prompt_request)) =
     Resp_completed \<and>
   map_option (\<lambda>c. length (level2Headings c))
     (IGenerateResponse.content
        (fst (generateReport demo_env (registries_with plain_template) heading_prompt_request))) =
     Some 2"
  by code_simp

end
